theory Spec2Isabelle
  imports Main "HOL-Library.Word"
begin

unbundle bit_operations_syntax

section \<open>The binary stream codec (module \<^verbatim>\<open>./bitstream\<close>)\<close>

text \<open>
  This theory follows \<^verbatim>\<open>src/sampquery.ts\<close>: the class \<^verbatim>\<open>SampQuery\<close> and its method
  \<^verbatim>\<open>request\<close>. A second copy of the class among the sources differs in two places: it
  always resolves the host name, and it reads the text fields with \<^verbatim>\<open>readString\<close> of the
  stream. Its loops and its handling of the socket are the same.

  \<^verbatim>\<open>sampquery.ts\<close> imports the class \<^verbatim>\<open>BitStream\<close> from \<^verbatim>\<open>./bitstream\<close>. That module is
  not among the source files, so the codec below follows section 4.1 of the specification:
  a byte buffer with a write offset and a read offset, little-endian fixed-width reads that
  fail with \<^verbatim>\<open>TruncatedBuffer\<close>, and a slice that fails with \<^verbatim>\<open>InvalidSlice\<close>.
\<close>

type_synonym byte = "8 word"

datatype codec_error = TruncatedBuffer | InvalidSlice

text \<open>"Backing storage (ordered sequence of bytes), independent write offset and read
  offset, both starting at 0."\<close>

record BitStream =
  buffer :: "byte list"
  write_offset :: nat
  read_offset :: nat

text \<open>A read either throws a codec fault or returns a value and the stream with its
  read offset advanced.\<close>

type_synonym 'a read = "codec_error + ('a \<times> BitStream)"

definition new_BitStream :: BitStream where
  \<comment> \<open>Modelled from the spec: \<^verbatim>\<open>new BitStream()\<close> of the missing module; "created empty for
      encoding a request", "write offset and read offset, both starting at 0".\<close>
  "new_BitStream = \<lparr>buffer = [], write_offset = 0, read_offset = 0\<rparr>"

definition writeUInt8 :: "byte \<Rightarrow> BitStream \<Rightarrow> BitStream" where
  \<comment> \<open>Modelled from the spec: \<^verbatim>\<open>writeUInt8\<close> of the missing module; "append an unsigned
      8-bit integer", "write offset only advances by the number of bytes appended".\<close>
  "writeUInt8 v bs = bs\<lparr>buffer := buffer bs @ [v], write_offset := write_offset bs + 1\<rparr>"

definition writeString :: "string \<Rightarrow> BitStream \<Rightarrow> BitStream" where
  \<comment> \<open>Modelled from the spec: \<^verbatim>\<open>writeString\<close> of the missing module; "append a
      fixed-length ASCII string as raw bytes (no length prefix, no terminator)".\<close>
  "writeString s bs =
     bs\<lparr>buffer := buffer bs @ map of_char s, write_offset := write_offset bs + length s\<rparr>"

definition getBuffer :: "BitStream \<Rightarrow> byte list" where
  \<comment> \<open>Modelled from the spec: \<^verbatim>\<open>getBuffer\<close> of the missing module; "exposes the accumulated
      buffer".\<close>
  "getBuffer bs = buffer bs"

definition bs_length :: "BitStream \<Rightarrow> nat" where
  \<comment> \<open>Modelled from the spec: the property \<^verbatim>\<open>length\<close> of the missing module; "its current
      length for transmission".\<close>
  "bs_length bs = write_offset bs"

definition from_buffer :: "byte list \<Rightarrow> BitStream" where
  \<comment> \<open>Modelled from the spec: \<^verbatim>\<open>BitStream.from\<close> of the missing module; "created from a
      received datagram for decoding a reply".\<close>
  "from_buffer msg = \<lparr>buffer = msg, write_offset = 0, read_offset = 0\<rparr>"

definition slice_from :: "nat \<Rightarrow> BitStream \<Rightarrow> codec_error + BitStream" where
  \<comment> \<open>Modelled from the spec: \<^verbatim>\<open>slice\<close> of the missing module; "returns a new reader over
      the same storage starting at K, with a fresh read cursor at 0; fails with InvalidSlice
      if K exceeds total length".\<close>
  "slice_from k bs =
     (if k > length (buffer bs) then Inl InvalidSlice
      else Inr \<lparr>buffer = drop k (buffer bs), write_offset = 0, read_offset = 0\<rparr>)"

definition readBytes :: "nat \<Rightarrow> BitStream \<Rightarrow> (byte list) read" where
  \<comment> \<open>Modelled from the spec: \<^verbatim>\<open>readBytes\<close> of the missing module; "returns exactly N
      bytes, advances offset by N; fails with TruncatedBuffer if unavailable".\<close>
  "readBytes n bs =
     (if read_offset bs + n \<le> length (buffer bs)
      then Inr (take n (drop (read_offset bs) (buffer bs)),
                bs\<lparr>read_offset := read_offset bs + n\<rparr>)
      else Inl TruncatedBuffer)"

fun le_value :: "byte list \<Rightarrow> nat" where
  \<comment> \<open>The unsigned number a run of bytes holds, least significant byte first.\<close>
  "le_value [] = 0"
| "le_value (b # bs) = unat b + 256 * le_value bs"

definition readUInt :: "nat \<Rightarrow> BitStream \<Rightarrow> nat read" where
  \<comment> \<open>Modelled from the spec: the fixed-width reads of the missing module; "consumes 1/2/4
      bytes starting at the current read offset [...] (little-endian [...]), advances the
      offset; fails with a TruncatedBuffer condition if fewer bytes remain than required".\<close>
  "readUInt w bs =
     (case readBytes w bs of
        Inl e \<Rightarrow> Inl e
      | Inr (raw, bs') \<Rightarrow> Inr (le_value raw, bs'))"

definition readUInt8 :: "BitStream \<Rightarrow> nat read" where
  \<comment> \<open>Modelled from the spec: \<^verbatim>\<open>readUInt8\<close> of the missing module; "consumes 1 byte".\<close>
  "readUInt8 = readUInt 1"

definition readUInt16 :: "BitStream \<Rightarrow> nat read" where
  \<comment> \<open>Modelled from the spec: \<^verbatim>\<open>readUInt16\<close> of the missing module; "consumes 2 bytes",
      "little-endian".\<close>
  "readUInt16 = readUInt 2"

definition readUInt32 :: "BitStream \<Rightarrow> nat read" where
  \<comment> \<open>Modelled from the spec: \<^verbatim>\<open>readUInt32\<close> of the missing module; "consumes 4 bytes",
      "little-endian".\<close>
  "readUInt32 = readUInt 4"

definition readBoolean :: "BitStream \<Rightarrow> bool read" where
  \<comment> \<open>Modelled from the spec: \<^verbatim>\<open>readBoolean\<close> of the missing module; "consumes 1 byte,
      true iff nonzero".\<close>
  "readBoolean bs =
     (case readUInt8 bs of
        Inl e \<Rightarrow> Inl e
      | Inr (v, bs') \<Rightarrow> Inr (v \<noteq> 0, bs'))"

section \<open>Text decoding (\<^verbatim>\<open>decodeWin1251String\<close>, \<^verbatim>\<open>bsReadCP1251String\<close>)\<close>

text \<open>
  A decoded string is the list of its Unicode code points. \<^verbatim>\<open>iconv.decode(str, 'win1251')\<close>
  maps every byte on its own through the windows-1251 code page: 0x00..0x7F are ASCII,
  0xC0..0xFF are U+0410..U+044F, 0x80..0xBF follow the table below, where the unassigned
  byte 0x98 gives the replacement character U+FFFD.
\<close>

type_synonym ustring = "nat list"

definition win1251_high :: "nat list" where
  "win1251_high =
    [0x0402, 0x0403, 0x201A, 0x0453, 0x201E, 0x2026, 0x2020, 0x2021,
     0x20AC, 0x2030, 0x0409, 0x2039, 0x040A, 0x040C, 0x040B, 0x040F,
     0x0452, 0x2018, 0x2019, 0x201C, 0x201D, 0x2022, 0x2013, 0x2014,
     0xFFFD, 0x2122, 0x0459, 0x203A, 0x045A, 0x045C, 0x045B, 0x045F,
     0x00A0, 0x040E, 0x045E, 0x0408, 0x00A4, 0x0490, 0x00A6, 0x00A7,
     0x0401, 0x00A9, 0x0404, 0x00AB, 0x00AC, 0x00AD, 0x00AE, 0x0407,
     0x00B0, 0x00B1, 0x0406, 0x0456, 0x0491, 0x00B5, 0x00B6, 0x00B7,
     0x0451, 0x2116, 0x0454, 0x00BB, 0x0458, 0x0405, 0x0455, 0x0457]"

definition win1251 :: "byte \<Rightarrow> nat" where
  "win1251 b =
     (if unat b < 0x80 then unat b
      else if unat b < 0xC0 then win1251_high ! (unat b - 0x80)
      else unat b + 0x350)"

definition decodeWin1251String :: "byte list \<Rightarrow> ustring" where
  "decodeWin1251String str = map win1251 str"

definition bsReadCP1251String :: "nat \<Rightarrow> BitStream \<Rightarrow> ustring read" where
  \<comment> \<open>\<^verbatim>\<open>(bs, len) => decodeWin1251String(bs.readBytes(len))\<close>\<close>
  "bsReadCP1251String len bs =
     (case readBytes len bs of
        Inl e \<Rightarrow> Inl e
      | Inr (raw, bs') \<Rightarrow> Inr (decodeWin1251String raw, bs'))"

section \<open>Options, opcodes and results\<close>

record SampQueryOptions =
  ip :: "string option"
  port :: "int option"
  timeout :: "int option"
  resolveHost :: "bool option"

datatype SampQueryOpcode = Op_i | Op_r | Op_d | Op_c

fun charCodeAt0 :: "SampQueryOpcode \<Rightarrow> byte" where
  \<comment> \<open>\<^verbatim>\<open>opcode.charCodeAt(0)\<close> for the four one-letter opcodes.\<close>
  "charCodeAt0 Op_i = of_char CHR ''i''"
| "charCodeAt0 Op_r = of_char CHR ''r''"
| "charCodeAt0 Op_d = of_char CHR ''d''"
| "charCodeAt0 Op_c = of_char CHR ''c''"

record SampQueryInfoResult =
  closed :: bool
  players :: nat
  maxPlayers :: nat
  serverName :: ustring
  gameModeName :: ustring
  language :: ustring

record SampQueryRule =
  rule_name :: ustring
  rule_value :: ustring

record SampQueryPlayer =
  player_id :: nat
  name :: ustring
  score :: nat
  ping :: nat

record SampQueryPlayerStat =
  stat_name :: ustring
  stat_score :: nat

datatype result =
    InfoResult SampQueryInfoResult
  | RulesResult "SampQueryRule list"
  | PlayersDetailedResult "SampQueryPlayer list"
  | PlayersResult "SampQueryPlayerStat list"

section \<open>The opcode-specific decoders (the \<^verbatim>\<open>try\<close> block of the message handler)\<close>

text \<open>
  Statements run in sequence on the one stream \<^verbatim>\<open>bytes\<close>; a read that throws ends the
  block. \<open>bind_read\<close> is that sequencing: the value read and the advanced stream go to
  the rest of the block, a fault skips it.
\<close>

definition bind_read :: "'a read \<Rightarrow> ('a \<Rightarrow> BitStream \<Rightarrow> codec_error + 'b) \<Rightarrow> codec_error + 'b" where
  "bind_read m f = (case m of Inl e \<Rightarrow> Inl e | Inr (v, bs) \<Rightarrow> f v bs)"

lemma bind_read_cong [fundef_cong]:
  assumes "m = m'" and "\<And>v bs. m' = Inr (v, bs) \<Longrightarrow> f v bs = f' v bs"
  shows "bind_read m f = bind_read m' f'"
  using assms by (auto simp: bind_read_def split: sum.splits)

text \<open>Every read leaves the storage alone and moves the read offset forward by the
  number of bytes it consumed, never past the end.\<close>

lemma readBytes_Inr:
  assumes "readBytes n bs = Inr (v, bs')"
  shows "buffer bs' = buffer bs" and "read_offset bs' = read_offset bs + n"
    and "read_offset bs' \<le> length (buffer bs)"
    and "v = take n (drop (read_offset bs) (buffer bs))"
  using assms by (auto simp: readBytes_def split: if_splits)

lemma readUInt_Inr:
  assumes "readUInt w bs = Inr (v, bs')"
  shows "buffer bs' = buffer bs" and "read_offset bs' = read_offset bs + w"
    and "read_offset bs' \<le> length (buffer bs)"
    and "v = le_value (take w (drop (read_offset bs) (buffer bs)))"
  using assms by (auto simp: readUInt_def split: sum.splits dest: readBytes_Inr)

lemma bsReadCP1251String_Inr:
  assumes "bsReadCP1251String n bs = Inr (v, bs')"
  shows "buffer bs' = buffer bs" and "read_offset bs' = read_offset bs + n"
    and "read_offset bs' \<le> length (buffer bs)"
    and "v = decodeWin1251String (take n (drop (read_offset bs) (buffer bs)))"
  using assms by (auto simp: bsReadCP1251String_def split: sum.splits dest: readBytes_Inr)

definition unread :: "BitStream \<Rightarrow> nat" where
  \<comment> \<open>the number of bytes between the read offset and the end of the storage\<close>
  "unread bs = length (buffer bs) - read_offset bs"

lemma readUInt_unread:
  "readUInt w bs = Inr (v, bs') \<Longrightarrow> unread bs' + w = unread bs"
  using readUInt_Inr(1,2,3) [of w bs v bs'] by (simp add: unread_def)

lemma bsReadCP1251String_unread:
  "bsReadCP1251String n bs = Inr (v, bs') \<Longrightarrow> unread bs' + n = unread bs"
  using bsReadCP1251String_Inr(1,2,3) [of n bs v bs'] by (simp add: unread_def)

definition decode_i :: "BitStream \<Rightarrow> codec_error + result" where
  \<comment> \<open>the branch \<^verbatim>\<open>opcode === 'i'\<close>\<close>
  "decode_i bytes =
     bind_read (readBoolean bytes) (\<lambda>closed bytes.
     bind_read (readUInt16 bytes) (\<lambda>players bytes.
     bind_read (readUInt16 bytes) (\<lambda>maxPlayers bytes.
     bind_read (readUInt32 bytes) (\<lambda>len bytes.
     bind_read (bsReadCP1251String len bytes) (\<lambda>serverName bytes.
     bind_read (readUInt32 bytes) (\<lambda>len bytes.
     bind_read (bsReadCP1251String len bytes) (\<lambda>gameModeName bytes.
     bind_read (readUInt32 bytes) (\<lambda>len bytes.
     bind_read (bsReadCP1251String len bytes) (\<lambda>language bytes.
       Inr (InfoResult \<lparr>closed = closed, players = players, maxPlayers = maxPlayers,
              serverName = serverName, gameModeName = gameModeName,
              language = language\<rparr>))))))))))"

function rules_loop :: "nat \<Rightarrow> nat \<Rightarrow> BitStream \<Rightarrow> SampQueryRule list \<Rightarrow> codec_error + result" where
  \<comment> \<open>\<^verbatim>\<open>for (let i = 0; i < count; i++)\<close>: the count was read once, before the loop\<close>
  "rules_loop i count bytes rulesResult =
     (if i < count then
        bind_read (readUInt8 bytes) (\<lambda>len bytes.
        bind_read (bsReadCP1251String len bytes) (\<lambda>name bytes.
        bind_read (readUInt8 bytes) (\<lambda>len bytes.
        bind_read (bsReadCP1251String len bytes) (\<lambda>val bytes.
          rules_loop (i + 1) count bytes
            (rulesResult @ [\<lparr>rule_name = name, rule_value = val\<rparr>])))))
      else Inr (RulesResult rulesResult))"
  by pat_completeness auto
termination
  by (relation "measure (\<lambda>(i, count, bytes, rulesResult). count - i)") auto

definition decode_r :: "BitStream \<Rightarrow> codec_error + result" where
  \<comment> \<open>the branch \<^verbatim>\<open>opcode === 'r'\<close>\<close>
  "decode_r bytes =
     bind_read (readUInt16 bytes) (\<lambda>count bytes. rules_loop 0 count bytes [])"


function players_detailed_loop :: "nat \<Rightarrow> BitStream \<Rightarrow> SampQueryPlayer list \<Rightarrow> codec_error + result" where
  \<comment> \<open>\<^verbatim>\<open>for (let i = 0; i < bytes.readUInt16(); i++)\<close>: the loop condition itself calls
      \<^verbatim>\<open>readUInt16\<close>, so two bytes are consumed each time the condition is tested\<close>
  "players_detailed_loop i bytes playersResult =
     bind_read (readUInt16 bytes) (\<lambda>n bytes.
       if i < n then
         bind_read (readUInt8 bytes) (\<lambda>pid bytes.
         bind_read (readUInt8 bytes) (\<lambda>len bytes.
         bind_read (bsReadCP1251String len bytes) (\<lambda>name bytes.
         bind_read (readUInt32 bytes) (\<lambda>score bytes.
         bind_read (readUInt32 bytes) (\<lambda>ping bytes.
           players_detailed_loop (i + 1) bytes
             (playersResult @ [\<lparr>player_id = pid, name = name, score = score, ping = ping\<rparr>]))))))
       else Inr (PlayersDetailedResult playersResult))"
  by pat_completeness auto
termination
proof (relation "measure (\<lambda>(i, bytes, playersResult). unread bytes)", goal_cases)
  case 1
  show ?case by simp
next
  case (2 i bytes playersResult n b1 pid b2 len b3 name b4 score b5 ping b6)
  then have "unread b1 + 2 = unread bytes" and "unread b2 \<le> unread b1"
    and "unread b3 \<le> unread b2" and "unread b4 \<le> unread b3"
    and "unread b5 \<le> unread b4" and "unread b6 \<le> unread b5"
    by (auto simp: readUInt8_def readUInt16_def readUInt32_def
             dest: readUInt_unread bsReadCP1251String_unread)
  then show ?case by simp
qed

definition decode_d :: "BitStream \<Rightarrow> codec_error + result" where
  \<comment> \<open>the branch \<^verbatim>\<open>opcode === 'd'\<close>\<close>
  "decode_d bytes = players_detailed_loop 0 bytes []"

function players_loop :: "nat \<Rightarrow> BitStream \<Rightarrow> SampQueryPlayerStat list \<Rightarrow> codec_error + result" where
  \<comment> \<open>\<^verbatim>\<open>for (let i = 0; i < bytes.readUInt16(); i++)\<close>, as in the branch for \<^verbatim>\<open>'d'\<close>\<close>
  "players_loop i bytes playersStatsResult =
     bind_read (readUInt16 bytes) (\<lambda>n bytes.
       if i < n then
         bind_read (readUInt8 bytes) (\<lambda>len bytes.
         bind_read (bsReadCP1251String len bytes) (\<lambda>name bytes.
         bind_read (readUInt32 bytes) (\<lambda>score bytes.
           players_loop (i + 1) bytes
             (playersStatsResult @ [\<lparr>stat_name = name, stat_score = score\<rparr>]))))
       else Inr (PlayersResult playersStatsResult))"
  by pat_completeness auto
termination
proof (relation "measure (\<lambda>(i, bytes, playersStatsResult). unread bytes)", goal_cases)
  case 1
  show ?case by simp
next
  case (2 i bytes playersStatsResult n b1 len b2 name b3 score b4)
  then have "unread b1 + 2 = unread bytes" and "unread b2 \<le> unread b1"
    and "unread b3 \<le> unread b2" and "unread b4 \<le> unread b3"
    by (auto simp: readUInt8_def readUInt16_def readUInt32_def
             dest: readUInt_unread bsReadCP1251String_unread)
  then show ?case by simp
qed

definition decode_c :: "BitStream \<Rightarrow> codec_error + result" where
  \<comment> \<open>the branch \<^verbatim>\<open>opcode === 'c'\<close>\<close>
  "decode_c bytes = players_loop 0 bytes []"

fun decode :: "SampQueryOpcode \<Rightarrow> BitStream \<Rightarrow> codec_error + result" where
  \<comment> \<open>the chain \<^verbatim>\<open>if (opcode === 'i') ... else if (opcode === 'r') ...\<close>\<close>
  "decode Op_i bytes = decode_i bytes"
| "decode Op_r bytes = decode_r bytes"
| "decode Op_d bytes = decode_d bytes"
| "decode Op_c bytes = decode_c bytes"

section \<open>Building the request packet\<close>

fun split_on :: "char \<Rightarrow> string \<Rightarrow> string list" where
  \<comment> \<open>\<^verbatim>\<open>String.prototype.split\<close> with a one-character separator: the empty string gives one
      empty part, and \<open>n\<close> separators give \<open>n + 1\<close> parts.\<close>
  "split_on c [] = [[]]"
| "split_on c (x # xs) =
     (if x = c then [] # split_on c xs
      else (case split_on c xs of
              [] \<Rightarrow> [[x]]
            | p # ps \<Rightarrow> (x # p) # ps))"

definition is_digit :: "char \<Rightarrow> bool" where
  "is_digit ch = (48 \<le> (of_char ch :: nat) \<and> (of_char ch :: nat) \<le> 57)"

definition dec_value :: "string \<Rightarrow> nat" where
  \<comment> \<open>the number a run of decimal digits writes\<close>
  "dec_value v = foldl (\<lambda>acc ch. 10 * acc + (of_char ch - 48)) 0 v"

definition to_number :: "string \<Rightarrow> nat option" where
  \<comment> \<open>\<^verbatim>\<open>+v\<close>. JavaScript gives 0 for the empty string and the decimal value for a run of
      decimal digits. Every other string (white space, a sign, an exponent, a hexadecimal
      literal, text that gives \<^verbatim>\<open>NaN\<close>) is outside this model: \<open>None\<close>.\<close>
  "to_number v = (if list_all is_digit v then Some (dec_value v) else None)"

fun write_octets :: "string list \<Rightarrow> BitStream \<Rightarrow> BitStream option" where
  \<comment> \<open>\<^verbatim>\<open>for (const v of ip.split('.')) bs.writeUInt8(+v)\<close>. The specification of the codec
      says what \<^verbatim>\<open>writeUInt8\<close> does with an unsigned 8-bit integer only; a part whose number
      is above 255, or outside the model of \<^verbatim>\<open>+v\<close>, gives \<open>None\<close>: the model does not
      follow the request there. \<open>None\<close> is not an error of the program.\<close>
  "write_octets [] bs = Some bs"
| "write_octets (v # vs) bs =
     (case to_number v of
        None \<Rightarrow> None
      | Some n \<Rightarrow> if n < 256 then write_octets vs (writeUInt8 (of_nat n) bs) else None)"

definition request_packet :: "string \<Rightarrow> int \<Rightarrow> SampQueryOpcode \<Rightarrow> BitStream option" where
  \<comment> \<open>\<^verbatim>\<open>const bs = new BitStream(); bs.writeString('SAMP'); ...;
      bs.writeUInt8(opcode.charCodeAt(0))\<close>. The port \<open>p\<close> is an integer; \<^verbatim>\<open>&\<close> and \<^verbatim>\<open>>>\<close> work
      on its two's complement bits.\<close>
  "request_packet address p opcode =
     (case write_octets (split_on CHR ''.'' address) (writeString ''SAMP'' new_BitStream) of
        None \<Rightarrow> None
      | Some bs \<Rightarrow>
          Some (writeUInt8 (charCodeAt0 opcode)
                 (writeUInt8 (of_int (drop_bit 8 p AND 0xFF))
                   (writeUInt8 (of_int (p AND 0xFF)) bs))))"

section \<open>The transaction (\<^verbatim>\<open>SampQuery.request\<close>)\<close>

datatype error =
    DnsError \<comment> \<open>the error \<^verbatim>\<open>resolveDns\<close> rejects with\<close>
  | SendError \<comment> \<open>the \<^verbatim>\<open>err\<close> given to the callback of \<^verbatim>\<open>socket.send\<close>\<close>
  | HostUnavailable string int
      \<comment> \<open>\<^verbatim>\<open>new Error(`[sampquery] [${ip}:${port}] host unavailable`)\<close>\<close>
  | InvalidMessage "string option" "int option"
      \<comment> \<open>\<^verbatim>\<open>new Error(`[sampquery] [${this.options.ip}:${this.options.port}] invalid message
          from socket`)\<close>: the specification's \<^verbatim>\<open>MalformedResponse\<close>\<close>
  | CodecFault codec_error
      \<comment> \<open>a fault thrown by a \<^verbatim>\<open>BitStream\<close> operation, as \<^verbatim>\<open>catch (error)\<close> receives it\<close>
  | SocketNotRunning
      \<comment> \<open>what \<^verbatim>\<open>socket.close()\<close> of \<^verbatim>\<open>dgram\<close> throws on a socket that is already closed\<close>
  | SocketBadPort int
      \<comment> \<open>what \<^verbatim>\<open>socket.send\<close> of \<^verbatim>\<open>dgram\<close> throws at once for a port outside 1..65535\<close>

definition resolveDns :: "(string \<Rightarrow> string option) \<Rightarrow> string \<Rightarrow> error + string" where
  \<comment> \<open>\<^verbatim>\<open>dns.resolve\<close> is the environment: \<open>lookup address\<close> is the first address found, or
      \<open>None\<close> when the lookup fails.\<close>
  "resolveDns lookup address =
     (case lookup address of None \<Rightarrow> Inl DnsError | Some a \<Rightarrow> Inr a)"

record request_args =
  arg_ip :: string
  arg_port :: int
  arg_timeout :: int
  arg_resolveHost :: bool

definition param_default :: "'a option \<Rightarrow> 'a option \<Rightarrow> 'a option" where
  \<comment> \<open>a destructuring default \<^verbatim>\<open>x = this.options.x\<close>: taken only when the call's own value
      is \<^verbatim>\<open>undefined\<close>\<close>
  "param_default given fallback = (case given of None \<Rightarrow> fallback | Some v \<Rightarrow> Some v)"

definition request_defaults :: "SampQueryOptions \<Rightarrow> SampQueryOptions \<Rightarrow> request_args" where
  \<comment> \<open>the parameter list of \<^verbatim>\<open>request\<close> and its first four statements; \<open>this\<close> is
      \<^verbatim>\<open>this.options\<close>, \<open>opts\<close> the argument of the call\<close>
  "request_defaults this opts =
     (let ip0 = param_default (ip opts) (ip this);
          port0 = param_default (port opts) (port this);
          timeout0 = param_default (timeout opts) (timeout this);
          resolveHost0 = param_default (resolveHost opts) (resolveHost this)
      in \<lparr>arg_ip = (case ip0 of None \<Rightarrow> ''127.0.0.1''
                      | Some a \<Rightarrow> if a = [] then ''127.0.0.1'' else a),
          arg_port = (case port0 of None \<Rightarrow> 7777
                      | Some p \<Rightarrow> if p = 0 then 7777 else p),
          arg_timeout = (case timeout0 of None \<Rightarrow> 2000
                      | Some t \<Rightarrow> if t = 0 then 2000 else t),
          arg_resolveHost = (case resolveHost0 of None \<Rightarrow> False | Some r \<Rightarrow> r)\<rparr>)"

record datagram =
  dgram_bytes :: "byte list"
  dgram_port :: int
  dgram_address :: string

text \<open>
  The state of one call of \<^verbatim>\<open>request\<close> after its synchronous part: what was handed to
  \<^verbatim>\<open>socket.send\<close>, which callbacks are still registered, the socket, and the promise.
\<close>

record transaction =
  this_options :: SampQueryOptions
  target_ip :: string
  target_port :: int
  timeout_ms :: int
  req_opcode :: SampQueryOpcode
  sent :: datagram
  send_pending :: bool \<comment> \<open>the callback of \<^verbatim>\<open>socket.send\<close> has not run yet\<close>
  timer_armed :: bool \<comment> \<open>\<^verbatim>\<open>controller\<close> is set and not cleared\<close>
  listener_armed :: bool \<comment> \<open>the \<^verbatim>\<open>once('message')\<close> listener is registered\<close>
  socket_open :: bool
  close_calls :: nat \<comment> \<open>how many times \<^verbatim>\<open>socket.close()\<close> was called\<close>
  uncaught :: nat \<comment> \<open>exceptions thrown out of a callback\<close>
  outcome :: "(error + result) option" \<comment> \<open>the promise: pending, rejected or resolved\<close>

definition valid_port :: "int \<Rightarrow> bool" where
  \<comment> \<open>the ports \<^verbatim>\<open>socket.send\<close> of \<^verbatim>\<open>dgram\<close> accepts: it checks the port before anything
      else and throws \<^verbatim>\<open>ERR_SOCKET_BAD_PORT\<close> for any other\<close>
  "valid_port p = (0 < p \<and> p \<le> 65535)"

definition request_start ::
  "(string \<Rightarrow> string option) \<Rightarrow> SampQueryOptions \<Rightarrow> SampQueryOptions \<Rightarrow> SampQueryOpcode
     \<Rightarrow> (error + transaction) option" where
  \<comment> \<open>The body of \<^verbatim>\<open>request\<close> up to \<^verbatim>\<open>return promise\<close>. \<open>Some (Inl e)\<close>: the call
      rejects with \<open>e\<close> before the timer and the listener are set: \<^verbatim>\<open>await resolveDns(ip)\<close>
      rejected, before a socket exists, or \<^verbatim>\<open>socket.send\<close> threw on the port, after the
      socket was created and the packet built. \<open>Some (Inr t)\<close>: the socket is created,
      the packet is handed to \<^verbatim>\<open>socket.send\<close>, the timer and the listener are set.
      \<open>None\<close>: the address is outside the model of \<open>write_octets\<close>.\<close>
  "request_start lookup this opts opcode =
     (let a = request_defaults this opts in
      case (if arg_resolveHost a then resolveDns lookup (arg_ip a) else Inr (arg_ip a)) of
        Inl e \<Rightarrow> Some (Inl e)
      | Inr address \<Rightarrow>
          (case request_packet address (arg_port a) opcode of
             None \<Rightarrow> None
           | Some bs \<Rightarrow>
               if \<not> valid_port (arg_port a) then Some (Inl (SocketBadPort (arg_port a)))
               else
               Some (Inr \<lparr>this_options = this, target_ip = address, target_port = arg_port a,
                          timeout_ms = arg_timeout a, req_opcode = opcode,
                          sent = \<lparr>dgram_bytes = take (bs_length bs) (getBuffer bs),
                                   dgram_port = arg_port a, dgram_address = address\<rparr>,
                          send_pending = True, timer_armed = True, listener_armed = True,
                          socket_open = True, close_calls = 0, uncaught = 0,
                          outcome = None\<rparr>)))"

definition settle :: "error + result \<Rightarrow> transaction \<Rightarrow> transaction" where
  \<comment> \<open>\<^verbatim>\<open>resolve\<close> and \<^verbatim>\<open>reject\<close>: only the first call settles the promise\<close>
  "settle v t = (if outcome t = None then t\<lparr>outcome := Some v\<rparr> else t)"

definition socket_close :: "transaction \<Rightarrow> transaction" where
  \<comment> \<open>\<^verbatim>\<open>socket.close()\<close>: the call is counted, the socket is closed afterwards\<close>
  "socket_close t = t\<lparr>socket_open := False, close_calls := close_calls t + 1\<rparr>"

definition on_send_done :: "bool \<Rightarrow> transaction \<Rightarrow> transaction" where
  \<comment> \<open>\<^verbatim>\<open>(err) => { if (err) { reject(err); socket.close(); } }\<close>; a close of a closed
      socket throws out of the callback\<close>
  "on_send_done err t =
     (let t1 = t\<lparr>send_pending := False\<rparr> in
      if err then
        (let t2 = settle (Inl SendError) t1 in
         if socket_open t2 then socket_close t2
         else (socket_close t2)\<lparr>uncaught := uncaught t2 + 1\<rparr>)
      else t1)"

definition on_timeout :: "transaction \<Rightarrow> transaction" where
  \<comment> \<open>\<^verbatim>\<open>() => { socket.close(); reject(new Error(... host unavailable)); }\<close>; when the
      close throws, the \<^verbatim>\<open>reject\<close> after it is not reached\<close>
  "on_timeout t =
     (let t1 = t\<lparr>timer_armed := False\<rparr> in
      if socket_open t1
      then settle (Inl (HostUnavailable (target_ip t1) (target_port t1))) (socket_close t1)
      else (socket_close t1)\<lparr>uncaught := uncaught t1 + 1\<rparr>)"

definition on_message :: "byte list \<Rightarrow> transaction \<Rightarrow> transaction" where
  \<comment> \<open>the listener given to \<^verbatim>\<open>socket.once('message', ...)\<close>: \<^verbatim>\<open>once\<close> removes it,
      \<^verbatim>\<open>clearTimeout(controller)\<close> disarms the timer, a message below 11 bytes rejects and
      returns, otherwise the socket is closed and the payload decoded; whatever the
      \<^verbatim>\<open>try\<close> block throws is given to \<^verbatim>\<open>reject\<close> as it is\<close>
  "on_message message t =
     (let t1 = t\<lparr>listener_armed := False, timer_armed := False\<rparr> in
      if length message < 11
      then settle (Inl (InvalidMessage (ip (this_options t1)) (port (this_options t1)))) t1
      else if \<not> socket_open t1 then settle (Inl SocketNotRunning) (socket_close t1)
      else
        (let t2 = socket_close t1 in
         case slice_from 11 (from_buffer message) of
           Inl e \<Rightarrow> settle (Inl (CodecFault e)) t2
         | Inr bytes \<Rightarrow>
             (case decode (req_opcode t2) bytes of
                Inl e \<Rightarrow> settle (Inl (CodecFault e)) t2
              | Inr v \<Rightarrow> settle (Inr v) t2)))"

datatype event =
    SendDone bool \<comment> \<open>the callback of \<^verbatim>\<open>socket.send\<close> runs; \<open>True\<close>: with an error\<close>
  | TimerFired
  | Message "byte list" \<comment> \<open>a datagram arrives on the socket\<close>

fun step :: "event \<Rightarrow> transaction \<Rightarrow> transaction" where
  \<comment> \<open>One turn of the event loop. An event whose callback is gone does nothing: the send
      callback runs once, a cleared or fired timer does not fire, and a datagram reaches the
      listener only while the socket is open and the listener registered.\<close>
  "step (SendDone err) t = (if send_pending t then on_send_done err t else t)"
| "step TimerFired t = (if timer_armed t then on_timeout t else t)"
| "step (Message message) t =
     (if listener_armed t \<and> socket_open t then on_message message t else t)"

definition run :: "event list \<Rightarrow> transaction \<Rightarrow> transaction" where
  "run evs t = fold step evs t"

section \<open>Reference points taken from the specification\<close>

text \<open>
  The definitions of this section are not code of the program. They write down the
  wording of the specification that the properties below compare the program with: what a
  valid address is, how a request is parsed back, and the wire format of the replies.
\<close>

definition valid_octet :: "string \<Rightarrow> bool" where
  \<comment> \<open>a decimal numeral between 0 and 255\<close>
  "valid_octet v = (v \<noteq> [] \<and> list_all is_digit v \<and> dec_value v < 256)"

definition valid_address :: "string \<Rightarrow> bool" where
  \<comment> \<open>a dotted quad: exactly four parts, each a valid octet\<close>
  "valid_address a =
     (length (split_on CHR ''.'' a) = 4 \<and> list_all valid_octet (split_on CHR ''.'' a))"

definition octets :: "string \<Rightarrow> byte list" where
  \<comment> \<open>the numbers of the dot-separated parts, one byte each, in the order of the string\<close>
  "octets a = map (\<lambda>v. of_nat (dec_value v)) (split_on CHR ''.'' a)"

definition parse_request ::
  "byte list \<Rightarrow> codec_error + (byte list \<times> nat list \<times> nat \<times> nat \<times> nat)" where
  \<comment> \<open>"parsing the bytes back": 4 raw bytes, 4 uint8s, uint8, uint8, uint8, with the
      codec's own reads\<close>
  "parse_request pkt =
     bind_read (readBytes 4 (from_buffer pkt)) (\<lambda>magic bs.
     bind_read (readUInt8 bs) (\<lambda>o1 bs.
     bind_read (readUInt8 bs) (\<lambda>o2 bs.
     bind_read (readUInt8 bs) (\<lambda>o3 bs.
     bind_read (readUInt8 bs) (\<lambda>o4 bs.
     bind_read (readUInt8 bs) (\<lambda>lo bs.
     bind_read (readUInt8 bs) (\<lambda>hi bs.
     bind_read (readUInt8 bs) (\<lambda>opc bs.
       Inr (magic, [o1, o2, o3, o4], lo, hi, opc)))))))))"

fun le_bytes :: "nat \<Rightarrow> nat \<Rightarrow> byte list" where
  \<comment> \<open>an unsigned integer on \<open>w\<close> bytes, least significant byte first\<close>
  "le_bytes 0 n = []"
| "le_bytes (Suc w) n = of_nat (n mod 256) # le_bytes w (n div 256)"

definition wire_string :: "nat \<Rightarrow> byte list \<Rightarrow> byte list" where
  \<comment> \<open>a text field preceded by its byte length on \<open>w\<close> bytes\<close>
  "wire_string w raw = le_bytes w (length raw) @ raw"

definition wire_info ::
  "byte \<Rightarrow> nat \<Rightarrow> nat \<Rightarrow> byte list \<Rightarrow> byte list \<Rightarrow> byte list \<Rightarrow> byte list" where
  \<comment> \<open>"\<^verbatim>\<open>i\<close> (info): bool closed; uint16 players; uint16 maxPlayers; then three text fields,
      each preceded by its own uint32 byte-length prefix"\<close>
  "wire_info c pl mx sn gm lg =
     c # le_bytes 2 pl @ le_bytes 2 mx @ wire_string 4 sn @ wire_string 4 gm @ wire_string 4 lg"

definition wire_player :: "nat \<times> byte list \<times> nat \<times> nat \<Rightarrow> byte list" where
  \<comment> \<open>"uint8 id, text field preceded by uint8 length (name), uint32 score, uint32 ping"\<close>
  "wire_player pl =
     (case pl of (pid, raw, sc, pg) \<Rightarrow>
        le_bytes 1 pid @ wire_string 1 raw @ le_bytes 4 sc @ le_bytes 4 pg)"

definition wire_players_detailed :: "(nat \<times> byte list \<times> nat \<times> nat) list \<Rightarrow> byte list" where
  \<comment> \<open>"\<^verbatim>\<open>d\<close> (players-detailed): uint16 count; then, count times: ..."\<close>
  "wire_players_detailed ps = le_bytes 2 (length ps) @ concat (map wire_player ps)"







definition unread_bytes :: "BitStream \<Rightarrow> byte list" where
  \<comment> \<open>the bytes from the read offset to the end of the storage\<close>
  "unread_bytes bs = drop (read_offset bs) (buffer bs)"

definition in_range :: "BitStream \<Rightarrow> bool" where
  \<comment> \<open>the read offset is not past the end of the storage\<close>
  "in_range bs = (read_offset bs \<le> length (buffer bs))"

section \<open>Example calls\<close>

definition no_options :: SampQueryOptions where
  "no_options = \<lparr>ip = None, port = None, timeout = None, resolveHost = None\<rparr>"

definition loopback_query :: "SampQueryOpcode \<Rightarrow> transaction" where
  \<comment> \<open>the state \<open>request_start\<close> gives for \<^verbatim>\<open>new SampQuery({}).request({opcode})\<close>, see
      \<open>request_start_loopback\<close>\<close>
  "loopback_query opcode =
     \<lparr>this_options = no_options, target_ip = ''127.0.0.1'', target_port = 7777,
      timeout_ms = 2000, req_opcode = opcode,
      sent = \<lparr>dgram_bytes = [0x53, 0x41, 0x4D, 0x50, 127, 0, 0, 1, 0x61, 0x1E, charCodeAt0 opcode],
               dgram_port = 7777, dgram_address = ''127.0.0.1''\<rparr>,
      send_pending = True, timer_armed = True, listener_armed = True,
      socket_open = True, close_calls = 0, uncaught = 0, outcome = None\<rparr>"

definition echo_header :: "SampQueryOpcode \<Rightarrow> byte list" where
  \<comment> \<open>the 11 bytes a server puts before its payload: the request, echoed\<close>
  "echo_header opcode = [0x53, 0x41, 0x4D, 0x50, 127, 0, 0, 1, 0x61, 0x1E, charCodeAt0 opcode]"

definition short_reply :: "byte list" where
  \<comment> \<open>a datagram of 10 bytes\<close>
  "short_reply = [0x53, 0x41, 0x4D, 0x50, 127, 0, 0, 1, 0x61, 0x1E]"

definition resolving_call :: SampQueryOptions where
  \<comment> \<open>a call that names a host, a port and asks for the name to be resolved\<close>
  "resolving_call = \<lparr>ip = Some ''samp.example.org'', port = Some 8904, timeout = None,
                      resolveHost = Some True\<rparr>"

definition example_lookup :: "string \<Rightarrow> string option" where
  \<comment> \<open>a name service that knows one host\<close>
  "example_lookup h = (if h = ''samp.example.org'' then Some ''192.168.1.10'' else None)"

definition configured_instance :: SampQueryOptions where
  \<comment> \<open>the options of \<^verbatim>\<open>new SampQuery({ip: '10.20.30.40', port: 256})\<close>\<close>
  "configured_instance = \<lparr>ip = Some ''10.20.30.40'', port = Some 256, timeout = None,
                           resolveHost = None\<rparr>"


definition settled_once :: "transaction \<Rightarrow> bool" where
  \<comment> \<open>while a datagram can still reach the listener, the promise is pending\<close>
  "settled_once t = (if listener_armed t \<and> socket_open t then outcome t = None else True)"

section \<open>Properties of the event loop\<close>

lemma request_start_loopback:
  "request_start (\<lambda>h. None) no_options no_options opcode = Some (Inr (loopback_query opcode))"
  by (simp add: request_start_def request_defaults_def param_default_def no_options_def
        request_packet_def to_number_def is_digit_def dec_value_def writeString_def
        writeUInt8_def new_BitStream_def bs_length_def getBuffer_def loopback_query_def
        valid_port_def)

lemma request_start_state:
  assumes "request_start lookup this opts opcode = Some (Inr t)"
  shows "this_options t = this" and "req_opcode t = opcode"
    and "send_pending t" and "timer_armed t" and "listener_armed t" and "socket_open t"
    and "close_calls t = 0" and "uncaught t = 0" and "outcome t = None"
  using assms
  by (auto simp: request_start_def Let_def split: sum.splits option.splits if_splits)

lemma step_settled_once: "settled_once t \<Longrightarrow> settled_once (step e t)"
  by (cases e)
     (auto simp: settled_once_def on_send_done_def on_timeout_def on_message_def settle_def
        socket_close_def Let_def split: if_splits sum.splits)

lemma step_static:
  "this_options (step e t) = this_options t" "req_opcode (step e t) = req_opcode t"
  by (cases e; simp add: on_send_done_def on_timeout_def on_message_def settle_def
        socket_close_def Let_def split: if_splits sum.splits)+

lemma run_settled_once: "settled_once t \<Longrightarrow> settled_once (run evs t)"
  unfolding run_def by (induction evs arbitrary: t) (simp_all add: step_settled_once)

lemma run_static:
  "this_options (run evs t) = this_options t" "req_opcode (run evs t) = req_opcode t"
  unfolding run_def by (induction evs arbitrary: t; simp add: step_static)+

lemma run_snoc: "run (evs @ [e]) t = step e (run evs t)"
  by (simp add: run_def)

lemma run_Cons: "run (e # evs) t = run evs (step e t)"
  by (simp add: run_def)

lemma run_loopback_send_done:
  "run [SendDone False] (loopback_query opcode) = (loopback_query opcode)\<lparr>send_pending := False\<rparr>"
  by (simp add: run_def loopback_query_def on_send_done_def)

text \<open>Where a datagram is delivered to a transaction that \<open>request_start\<close> began, the
  promise is still pending, and the options and the opcode are those of the call.\<close>

lemma delivered_pending:
  assumes "request_start lookup this opts opcode = Some (Inr t)"
    and "listener_armed (run evs t)" and "socket_open (run evs t)"
  shows "outcome (run evs t) = None" and "this_options (run evs t) = this"
    and "req_opcode (run evs t) = opcode"
    and "run (evs @ [Message message]) t = on_message message (run evs t)"
proof -
  have "settled_once t"
    using request_start_state [OF assms(1)] by (simp add: settled_once_def)
  then have "settled_once (run evs t)" by (rule run_settled_once)
  with assms(2,3) show "outcome (run evs t) = None" by (simp add: settled_once_def)
  show "this_options (run evs t) = this"
    using request_start_state(1) [OF assms(1)] by (simp add: run_static)
  show "req_opcode (run evs t) = opcode"
    using request_start_state(2) [OF assms(1)] by (simp add: run_static)
  show "run (evs @ [Message message]) t = on_message message (run evs t)"
    using assms(2,3) by (simp add: run_snoc)
qed

lemma step_quiescent:
  "\<not> send_pending t \<Longrightarrow> \<not> timer_armed t \<Longrightarrow> \<not> listener_armed t \<Longrightarrow> step e t = t"
  by (cases e) simp_all

lemma run_quiescent:
  "\<not> send_pending t \<Longrightarrow> \<not> timer_armed t \<Longrightarrow> \<not> listener_armed t \<Longrightarrow> run evs t = t"
  unfolding run_def by (induction evs) (simp_all add: step_quiescent)

lemma slice_from_11:
  "11 \<le> length message \<Longrightarrow>
     slice_from 11 (from_buffer message) = Inr (from_buffer (drop 11 message))"
  by (simp add: slice_from_def from_buffer_def)

lemma on_message_decoded:
  assumes "11 \<le> length message" and "socket_open t" and "outcome t = None"
  shows "outcome (on_message message t) =
           Some (case decode (req_opcode t) (from_buffer (drop 11 message)) of
                   Inl e \<Rightarrow> Inl (CodecFault e) | Inr v \<Rightarrow> Inr v)"
    and "close_calls (on_message message t) = close_calls t + 1"
    and "\<not> socket_open (on_message message t)"
  using assms
  by (simp_all add: on_message_def slice_from_11 settle_def socket_close_def Let_def
        split: sum.splits)

section \<open>The request packet\<close>

lemma write_octets_valid:
  "list_all valid_octet vs \<Longrightarrow>
   write_octets vs bs =
     Some (bs\<lparr>buffer := buffer bs @ map (\<lambda>v. of_nat (dec_value v)) vs,
              write_offset := write_offset bs + length vs\<rparr>)"
  by (induction vs arbitrary: bs) (simp_all add: valid_octet_def to_number_def writeUInt8_def)

lemma request_packet_valid:
  assumes "list_all valid_octet (split_on CHR ''.'' a)"
  shows "request_packet a p opcode =
     Some \<lparr>buffer = map of_char ''SAMP'' @ octets a @
                      [of_int (p AND 0xFF), of_int (drop_bit 8 p AND 0xFF), charCodeAt0 opcode],
           write_offset = 7 + length (split_on CHR ''.'' a), read_offset = 0\<rparr>"
  using assms
  by (simp add: request_packet_def write_octets_valid writeString_def new_BitStream_def
        writeUInt8_def octets_def)

text \<open>What the call is given. An option of the call wins over the option of the
  instance; the address \<open>a\<close> is not empty and the port \<open>p\<close> is not 0, so neither is
  replaced by its default.\<close>

lemma request_defaults_supplied:
  assumes "ip opts = Some a \<or> (ip opts = None \<and> ip this = Some a)" and "a \<noteq> []"
    and "port opts = Some p \<or> (port opts = None \<and> port this = Some p)" and "p \<noteq> 0"
    and "resolveHost opts = Some r \<or> (resolveHost opts = None \<and> resolveHost this = Some r)
          \<or> (resolveHost opts = None \<and> resolveHost this = None \<and> \<not> r)"
  shows "arg_ip (request_defaults this opts) = a"
    and "arg_port (request_defaults this opts) = p"
    and "arg_resolveHost (request_defaults this opts) = r"
  using assms by (auto simp: request_defaults_def param_default_def)

lemma request_start_supplied:
  assumes "ip opts = Some a \<or> (ip opts = None \<and> ip this = Some a)" and "a \<noteq> []"
    and "port opts = Some p \<or> (port opts = None \<and> port this = Some p)" and "valid_port p"
    and "resolveHost opts = Some r \<or> (resolveHost opts = None \<and> resolveHost this = Some r)
          \<or> (resolveHost opts = None \<and> resolveHost this = None \<and> \<not> r)"
    and "(if r then lookup a else Some a) = Some b"
    and "list_all valid_octet (split_on CHR ''.'' b)"
  shows "\<exists>t. request_start lookup this opts opcode = Some (Inr t)
           \<and> sent t = \<lparr>dgram_bytes = map of_char ''SAMP'' @ octets b @
                          [of_int (p AND 0xFF), of_int (drop_bit 8 p AND 0xFF),
                           charCodeAt0 opcode],
                        dgram_port = p, dgram_address = b\<rparr>
           \<and> length (dgram_bytes (sent t)) = 7 + length (split_on CHR ''.'' b)
           \<and> socket_open t \<and> outcome t = None"
proof -
  from assms(4) have "p \<noteq> 0" by (auto simp: valid_port_def)
  note d = request_defaults_supplied [OF assms(1,2,3) this assms(5)]
  have "(if arg_resolveHost (request_defaults this opts)
         then resolveDns lookup (arg_ip (request_defaults this opts))
         else Inr (arg_ip (request_defaults this opts))) = Inr b"
    using assms(6) by (cases r) (simp_all add: d resolveDns_def)
  then show ?thesis
    using assms(4)
    by (simp add: request_start_def Let_def d(2) request_packet_valid [OF assms(7)]
          bs_length_def getBuffer_def octets_def)
qed

lemma unat_octet: "n < 256 \<Longrightarrow> unat (of_nat n :: byte) = n"
  by (simp add: unat_of_nat)

lemma unat_port_byte: "unat (of_int (k AND 0xFF) :: byte) = nat (k AND 0xFF)"
proof -
  have "take_bit 8 (k AND 255) = k AND 255"
    using take_bit_eq_mask [of 8 k] by (simp add: mask_eq_exp_minus_1 take_bit_eq_mask and.assoc)
  then show ?thesis
    by (simp add: unsigned_of_int)
qed

lemma port_halves:
  assumes "0 \<le> p" "p < 65536"
  shows "nat (p AND 0xFF) + 256 * nat (drop_bit 8 p AND 0xFF) = nat p"
proof -
  have m: "(255::int) = mask 8" by (simp add: mask_eq_exp_minus_1)
  have lo: "p AND 255 = p mod 256"
    unfolding m by (simp add: take_bit_eq_mask [symmetric] take_bit_eq_mod)
  have hi: "drop_bit 8 p AND 255 = p div 256 mod 256"
    unfolding m by (simp add: take_bit_eq_mask [symmetric] take_bit_eq_mod drop_bit_eq_div)
  have "p div 256 < 256" using assms by simp
  moreover have "0 \<le> p div 256" using assms by simp
  ultimately have "p div 256 mod 256 = p div 256" by simp
  with lo hi assms show ?thesis by (simp add: nat_mod_distrib nat_div_distrib)
qed

lemma list4:
  assumes "length xs = 4"
  obtains a b c d where "xs = [a, b, c, d]"
proof -
  from assms obtain a xs1 where 1: "xs = a # xs1" "length xs1 = 3"
    by (cases xs) auto
  then obtain b xs2 where 2: "xs1 = b # xs2" "length xs2 = 2" by (cases xs1) auto
  then obtain c xs3 where 3: "xs2 = c # xs3" "length xs3 = 1" by (cases xs2) auto
  then obtain d where "xs3 = [d]" by (cases xs3) auto
  with 1 2 3 show thesis using that by simp
qed

text \<open>
  C5. The call is given an address \<open>a\<close>, a port \<open>p\<close> between 1 and 65535 and an opcode,
  in its own options or in those of the instance. The address written is \<open>b\<close>: \<open>a\<close>
  itself, or what the name resolution gives for \<open>a\<close> when \<^verbatim>\<open>resolveHost\<close> is set. When
  \<open>b\<close> is a valid dotted quad, the packet handed to \<^verbatim>\<open>socket.send\<close> for \<open>b\<close> and \<open>p\<close> is
  exactly 11 bytes: the four ASCII bytes of "SAMP", the four octets of \<open>b\<close> in the order
  of the string, \<^verbatim>\<open>p & 0xFF\<close>, \<^verbatim>\<open>p >> 8 & 0xFF\<close>, and the character code of the opcode.
\<close>

theorem request_packet_layout:
  assumes "ip opts = Some a \<or> (ip opts = None \<and> ip this = Some a)" and "a \<noteq> []"
    and "port opts = Some p \<or> (port opts = None \<and> port this = Some p)"
    and "0 < p" and "p \<le> 65535"
    and "resolveHost opts = Some r \<or> (resolveHost opts = None \<and> resolveHost this = Some r)
          \<or> (resolveHost opts = None \<and> resolveHost this = None \<and> \<not> r)"
    and "(if r then lookup a else Some a) = Some b"
    and "valid_address b"
  shows "\<exists>t. request_start lookup this opts opcode = Some (Inr t)
           \<and> dgram_bytes (sent t) =
               map of_char ''SAMP'' @ octets b @
               [of_int (p AND 0xFF), of_int (drop_bit 8 p AND 0xFF), charCodeAt0 opcode]
           \<and> length (octets b) = 4
           \<and> length (dgram_bytes (sent t)) = 11
           \<and> dgram_port (sent t) = p
           \<and> dgram_address (sent t) = b"
proof -
  from assms(8) have v: "list_all valid_octet (split_on CHR ''.'' b)"
    and l: "length (split_on CHR ''.'' b) = 4"
    by (simp_all add: valid_address_def)
  have vp: "valid_port p" using assms(4,5) by (simp add: valid_port_def)
  from request_start_supplied
         [where lookup = lookup and a = a and r = r and opcode = opcode,
          OF assms(1,2,3) vp assms(6,7) v]
  obtain t where "request_start lookup this opts opcode = Some (Inr t)"
    and "sent t = \<lparr>dgram_bytes = map of_char ''SAMP'' @ octets b @
                          [of_int (p AND 0xFF), of_int (drop_bit 8 p AND 0xFF),
                           charCodeAt0 opcode],
                        dgram_port = p, dgram_address = b\<rparr>"
    by blast
  then show ?thesis using l by (simp add: octets_def)
qed

theorem request_packet_layout_witness:
  "(ip resolving_call = Some ''samp.example.org''
      \<or> (ip resolving_call = None \<and> ip no_options = Some ''samp.example.org''))
   \<and> ''samp.example.org'' \<noteq> []
   \<and> (port resolving_call = Some 8904
      \<or> (port resolving_call = None \<and> port no_options = Some 8904))
   \<and> (0::int) < 8904 \<and> (8904::int) \<le> 65535
   \<and> (resolveHost resolving_call = Some True
      \<or> (resolveHost resolving_call = None \<and> resolveHost no_options = Some True)
      \<or> (resolveHost resolving_call = None \<and> resolveHost no_options = None \<and> \<not> True))
   \<and> (if True then example_lookup ''samp.example.org'' else Some ''samp.example.org'')
        = Some ''192.168.1.10''
   \<and> valid_address ''192.168.1.10''
   \<and> (\<exists>t. request_start example_lookup no_options resolving_call Op_r = Some (Inr t)
          \<and> dgram_bytes (sent t) = [0x53, 0x41, 0x4D, 0x50, 192, 168, 1, 10, 0xC8, 0x22, 0x72]
          \<and> length (dgram_bytes (sent t)) = 11
          \<and> dgram_port (sent t) = 8904
          \<and> dgram_address (sent t) = ''192.168.1.10'')"
proof -
  have i: "ip resolving_call = Some ''samp.example.org''
             \<or> (ip resolving_call = None \<and> ip no_options = Some ''samp.example.org'')"
    and p: "port resolving_call = Some 8904
             \<or> (port resolving_call = None \<and> port no_options = Some 8904)"
    and r: "resolveHost resolving_call = Some True
             \<or> (resolveHost resolving_call = None \<and> resolveHost no_options = Some True)
             \<or> (resolveHost resolving_call = None \<and> resolveHost no_options = None \<and> \<not> True)"
    by (simp_all add: resolving_call_def)
  have n: "''samp.example.org'' \<noteq> []" and b: "(0::int) < 8904" "(8904::int) \<le> 65535"
    by simp_all
  have k: "(if True then example_lookup ''samp.example.org'' else Some ''samp.example.org'')
             = Some ''192.168.1.10''"
    by (simp add: example_lookup_def)
  have v: "valid_address ''192.168.1.10''"
    by (simp add: valid_address_def valid_octet_def is_digit_def dec_value_def)
  have o: "octets ''192.168.1.10'' = [192, 168, 1, 10]"
    by (simp add: octets_def dec_value_def)
  have e: "\<exists>t. request_start example_lookup no_options resolving_call Op_r = Some (Inr t)
          \<and> dgram_bytes (sent t) = [0x53, 0x41, 0x4D, 0x50, 192, 168, 1, 10, 0xC8, 0x22, 0x72]
          \<and> length (dgram_bytes (sent t)) = 11
          \<and> dgram_port (sent t) = 8904
          \<and> dgram_address (sent t) = ''192.168.1.10''"
    using request_packet_layout
            [where lookup = example_lookup and a = "''samp.example.org''" and r = True
               and opcode = Op_r, OF i n p b r k v]
    by (auto simp: o)
  from i n p b r k v e show ?thesis by (intro conjI)
qed

text \<open>
  C8. With the address, the port and the opcode the call is given as in C5, parsing the
  packet back with the reads of the codec (4 raw bytes, then seven uint8) gives the tag
  "SAMP", the four numbers written in the address, the two port bytes \<^verbatim>\<open>p & 0xFF\<close> and
  \<^verbatim>\<open>p >> 8 & 0xFF\<close>, which put together are the port \<open>p\<close>, and the character code of the
  opcode.
\<close>

theorem request_round_trip:
  assumes "ip opts = Some a \<or> (ip opts = None \<and> ip this = Some a)" and "a \<noteq> []"
    and "port opts = Some p \<or> (port opts = None \<and> port this = Some p)"
    and "0 < p" and "p \<le> 65535"
    and "resolveHost opts = Some r \<or> (resolveHost opts = None \<and> resolveHost this = Some r)
          \<or> (resolveHost opts = None \<and> resolveHost this = None \<and> \<not> r)"
    and "(if r then lookup a else Some a) = Some b"
    and "valid_address b"
  shows "\<exists>t lo hi. request_start lookup this opts opcode = Some (Inr t)
           \<and> parse_request (dgram_bytes (sent t)) =
               Inr (map of_char ''SAMP'', map dec_value (split_on CHR ''.'' b), lo, hi,
                    unat (charCodeAt0 opcode))
           \<and> lo = nat (p AND 0xFF)
           \<and> hi = nat (drop_bit 8 p AND 0xFF)
           \<and> lo + 256 * hi = nat p"
proof -
  from assms(8) have v: "list_all valid_octet (split_on CHR ''.'' b)"
    and l: "length (split_on CHR ''.'' b) = 4"
    by (simp_all add: valid_address_def)
  from l obtain o1 o2 o3 o4 where s: "split_on CHR ''.'' b = [o1, o2, o3, o4]"
    by (rule list4)
  from v s have d: "dec_value o1 < 256" "dec_value o2 < 256" "dec_value o3 < 256"
    "dec_value o4 < 256"
    by (simp_all add: valid_octet_def)
  have vp: "valid_port p" using assms(4,5) by (simp add: valid_port_def)
  have h: "nat (p AND 0xFF) + 256 * nat (drop_bit 8 p AND 0xFF) = nat p"
    using assms(4,5) by (intro port_halves) simp_all
  from request_start_supplied
         [where lookup = lookup and a = a and r = r and opcode = opcode,
          OF assms(1,2,3) vp assms(6,7) v]
  obtain t where t: "request_start lookup this opts opcode = Some (Inr t)"
    and "sent t = \<lparr>dgram_bytes = map of_char ''SAMP'' @ octets b @
                          [of_int (p AND 0xFF), of_int (drop_bit 8 p AND 0xFF),
                           charCodeAt0 opcode],
                        dgram_port = p, dgram_address = b\<rparr>"
    by blast
  then have "parse_request (dgram_bytes (sent t)) =
               Inr (map of_char ''SAMP'', map dec_value (split_on CHR ''.'' b),
                    nat (p AND 0xFF), nat (drop_bit 8 p AND 0xFF), unat (charCodeAt0 opcode))"
    using d
    by (simp add: octets_def s parse_request_def from_buffer_def bind_read_def
          readBytes_def readUInt8_def readUInt_def unat_octet unat_port_byte)
  with t h show ?thesis by blast
qed

theorem request_round_trip_witness:
  "(ip no_options = Some ''10.20.30.40''
      \<or> (ip no_options = None \<and> ip configured_instance = Some ''10.20.30.40''))
   \<and> ''10.20.30.40'' \<noteq> []
   \<and> (port no_options = Some 256
      \<or> (port no_options = None \<and> port configured_instance = Some 256))
   \<and> (0::int) < 256 \<and> (256::int) \<le> 65535
   \<and> (resolveHost no_options = Some False
      \<or> (resolveHost no_options = None \<and> resolveHost configured_instance = Some False)
      \<or> (resolveHost no_options = None \<and> resolveHost configured_instance = None \<and> \<not> False))
   \<and> (if False then example_lookup ''10.20.30.40'' else Some ''10.20.30.40'')
        = Some ''10.20.30.40''
   \<and> valid_address ''10.20.30.40''
   \<and> (\<exists>t. request_start example_lookup configured_instance no_options Op_c = Some (Inr t)
          \<and> parse_request (dgram_bytes (sent t)) =
               Inr ([0x53, 0x41, 0x4D, 0x50], [10, 20, 30, 40], 0, 1, 99))"
proof -
  have i: "ip no_options = Some ''10.20.30.40''
      \<or> (ip no_options = None \<and> ip configured_instance = Some ''10.20.30.40'')"
    and p: "port no_options = Some 256
      \<or> (port no_options = None \<and> port configured_instance = Some 256)"
    and r: "resolveHost no_options = Some False
      \<or> (resolveHost no_options = None \<and> resolveHost configured_instance = Some False)
      \<or> (resolveHost no_options = None \<and> resolveHost configured_instance = None \<and> \<not> False)"
    by (simp_all add: no_options_def configured_instance_def)
  have n: "''10.20.30.40'' \<noteq> []" and b: "(0::int) < 256" "(256::int) \<le> 65535"
    by simp_all
  have k: "(if False then example_lookup ''10.20.30.40'' else Some ''10.20.30.40'')
        = Some ''10.20.30.40''"
    by simp
  have v: "valid_address ''10.20.30.40''"
    by (simp add: valid_address_def valid_octet_def is_digit_def dec_value_def)
  have e: "\<exists>t. request_start example_lookup configured_instance no_options Op_c = Some (Inr t)
          \<and> parse_request (dgram_bytes (sent t)) =
               Inr ([0x53, 0x41, 0x4D, 0x50], [10, 20, 30, 40], 0, 1, 99)"
    using request_round_trip
            [where lookup = example_lookup and a = "''10.20.30.40''" and r = False
               and opcode = Op_c, OF i n p b r k v]
    by (auto simp: dec_value_def)
  from i n p b r k v e show ?thesis by (intro conjI)
qed

section \<open>Defaults\<close>

text \<open>
  C9. A falsy option is replaced by the default, not only an absent one. An empty \<^verbatim>\<open>ip\<close>,
  a \<^verbatim>\<open>port\<close> of 0 or a \<^verbatim>\<open>timeout\<close> of 0 given to the call becomes 127.0.0.1, 7777 or
  2000, whatever the options of the instance are; so does an option absent from the call
  that is absent, empty or 0 in the options of the instance. The address in effect is
  never empty, the port and the timeout in effect are never 0.
\<close>

theorem falsy_options_replaced:
  "arg_ip (request_defaults this (opts\<lparr>ip := Some []\<rparr>)) = ''127.0.0.1''
   \<and> arg_port (request_defaults this (opts\<lparr>port := Some 0\<rparr>)) = 7777
   \<and> arg_timeout (request_defaults this (opts\<lparr>timeout := Some 0\<rparr>)) = 2000
   \<and> arg_ip (request_defaults (this\<lparr>ip := None\<rparr>) (opts\<lparr>ip := None\<rparr>)) = ''127.0.0.1''
   \<and> arg_port (request_defaults (this\<lparr>port := None\<rparr>) (opts\<lparr>port := None\<rparr>)) = 7777
   \<and> arg_timeout (request_defaults (this\<lparr>timeout := None\<rparr>) (opts\<lparr>timeout := None\<rparr>)) = 2000
   \<and> arg_ip (request_defaults (this\<lparr>ip := Some []\<rparr>) (opts\<lparr>ip := None\<rparr>)) = ''127.0.0.1''
   \<and> arg_port (request_defaults (this\<lparr>port := Some 0\<rparr>) (opts\<lparr>port := None\<rparr>)) = 7777
   \<and> arg_timeout (request_defaults (this\<lparr>timeout := Some 0\<rparr>) (opts\<lparr>timeout := None\<rparr>)) = 2000
   \<and> arg_ip (request_defaults this opts) \<noteq> []
   \<and> arg_port (request_defaults this opts) \<noteq> 0
   \<and> arg_timeout (request_defaults this opts) \<noteq> 0"
  by (simp add: request_defaults_def param_default_def split: option.splits)

text \<open>The values in effect are the ones the transaction uses: the datagram goes to that
  port, the timer is set to that timeout.\<close>

lemma request_start_args:
  assumes "request_start lookup this opts opcode = Some (Inr t)"
  shows "target_port t = arg_port (request_defaults this opts)"
    and "dgram_port (sent t) = arg_port (request_defaults this opts)"
    and "timeout_ms t = arg_timeout (request_defaults this opts)"
    and "dgram_address (sent t) = target_ip t"
  using assms
  by (auto simp: request_start_def Let_def split: sum.splits option.splits if_splits)

section \<open>Addresses that are not dotted quads\<close>




text \<open>A port outside 1..65535 is refused by \<^verbatim>\<open>socket.send\<close> at once: the call
  rejects, and neither the timer nor the listener is set.\<close>

lemma bad_port_rejected:
  "request_start (\<lambda>h. None) no_options (no_options\<lparr>port := Some 70000\<rparr>) Op_i
     = Some (Inl (SocketBadPort 70000))"
  by (simp add: request_start_def request_defaults_def param_default_def no_options_def
        request_packet_def to_number_def is_digit_def dec_value_def writeString_def
        writeUInt8_def new_BitStream_def valid_port_def)

section \<open>Replies shorter than the header\<close>

text \<open>
  C6. Whatever the opcode, a datagram of fewer than 11 bytes that reaches the listener of
  a transaction rejects the promise with the error "invalid message from socket", the
  \<^verbatim>\<open>MalformedResponse\<close> of the specification.
\<close>

theorem short_reply_rejected:
  assumes "request_start lookup this opts opcode = Some (Inr t)"
    and "listener_armed (run evs t)" and "socket_open (run evs t)"
    and "length message < 11"
  shows "outcome (run (evs @ [Message message]) t)
           = Some (Inl (InvalidMessage (ip this) (port this)))"
  using delivered_pending [OF assms(1,2,3)] assms(4)
  by (simp add: on_message_def settle_def)

theorem short_reply_rejected_witness:
  "request_start (\<lambda>h. None) no_options no_options Op_r = Some (Inr (loopback_query Op_r))
   \<and> listener_armed (run [SendDone False] (loopback_query Op_r))
   \<and> socket_open (run [SendDone False] (loopback_query Op_r))
   \<and> length short_reply < 11
   \<and> outcome (run ([SendDone False] @ [Message short_reply]) (loopback_query Op_r))
       = Some (Inl (InvalidMessage None None))"
proof -
  have l: "listener_armed (run [SendDone False] (loopback_query Op_r))"
    and s: "socket_open (run [SendDone False] (loopback_query Op_r))"
    by (simp_all add: run_loopback_send_done) (simp_all add: loopback_query_def)
  have n: "length short_reply < 11" by (simp add: short_reply_def)
  have "outcome (run ([SendDone False] @ [Message short_reply]) (loopback_query Op_r))
       = Some (Inl (InvalidMessage None None))"
    using short_reply_rejected [OF request_start_loopback l s n] by (simp add: no_options_def)
  with request_start_loopback l s n show ?thesis by (intro conjI)
qed

section \<open>Releasing the socket\<close>

lemma short_reply_state:
  "step (Message short_reply) (step (SendDone False) (loopback_query opcode)) =
     (loopback_query opcode)\<lparr>send_pending := False, timer_armed := False,
        listener_armed := False, outcome := Some (Inl (InvalidMessage None None))\<rparr>"
  by (simp add: loopback_query_def on_send_done_def on_message_def settle_def short_reply_def
        no_options_def)

text \<open>
  C2. The branch for a message below 11 bytes clears the timer, rejects and returns
  before \<^verbatim>\<open>socket.close()\<close>. After a datagram of 10 bytes the promise is rejected, and no
  callback is left that could close the socket: whatever happens next, it stays open and
  \<^verbatim>\<open>close\<close> has been called zero times.
\<close>

theorem short_reply_socket_never_closed:
  "\<forall>evs. close_calls (run (SendDone False # Message short_reply # evs) (loopback_query opcode)) = 0
        \<and> socket_open (run (SendDone False # Message short_reply # evs) (loopback_query opcode))
        \<and> outcome (run (SendDone False # Message short_reply # evs) (loopback_query opcode))
            = Some (Inl (InvalidMessage None None))"
proof
  fix evs
  let ?t = "(loopback_query opcode)\<lparr>send_pending := False, timer_armed := False,
        listener_armed := False, outcome := Some (Inl (InvalidMessage None None))\<rparr>"
  have "run (SendDone False # Message short_reply # evs) (loopback_query opcode) = run evs ?t"
    by (simp only: run_Cons short_reply_state)
  also have "\<dots> = ?t" by (rule run_quiescent) simp_all
  finally show "close_calls (run (SendDone False # Message short_reply # evs) (loopback_query opcode)) = 0
        \<and> socket_open (run (SendDone False # Message short_reply # evs) (loopback_query opcode))
        \<and> outcome (run (SendDone False # Message short_reply # evs) (loopback_query opcode))
            = Some (Inl (InvalidMessage None None))"
    by (simp add: loopback_query_def)
qed

text \<open>The other paths. A timeout and a reply of 11 bytes or more close the socket once. A
  send failure closes it once and leaves the timer set: when the timer fires,
  \<^verbatim>\<open>socket.close()\<close> is called a second time, on the closed socket.\<close>

lemma timeout_closes_once:
  "close_calls (run [SendDone False, TimerFired] (loopback_query opcode)) = 1
   \<and> outcome (run [SendDone False, TimerFired] (loopback_query opcode))
      = Some (Inl (HostUnavailable ''127.0.0.1'' 7777))"
  by (simp add: run_def loopback_query_def on_send_done_def on_timeout_def settle_def
        socket_close_def)

lemma send_failure_closes_twice:
  "close_calls (run [SendDone True] (loopback_query opcode)) = 1
   \<and> outcome (run [SendDone True] (loopback_query opcode)) = Some (Inl SendError)
   \<and> close_calls (run [SendDone True, TimerFired] (loopback_query opcode)) = 2
   \<and> uncaught (run [SendDone True, TimerFired] (loopback_query opcode)) = 1"
  by (simp add: run_def loopback_query_def on_send_done_def on_timeout_def settle_def
        socket_close_def)

lemma reply_closes_once:
  assumes "request_start lookup this opts opcode = Some (Inr t)"
    and "listener_armed (run evs t)" and "socket_open (run evs t)"
    and "11 \<le> length message"
  shows "close_calls (run (evs @ [Message message]) t) = close_calls (run evs t) + 1"
    and "\<not> socket_open (run (evs @ [Message message]) t)"
    and "\<not> timer_armed (run (evs @ [Message message]) t)"
  using delivered_pending [OF assms(1,2,3)] assms(3,4)
  by (simp_all add: on_message_def slice_from_11 settle_def socket_close_def Let_def
        split: sum.splits)

section \<open>Faults of the codec in the message handler\<close>

text \<open>The equations of the three loops are unfolded by hand, one turn at a time.\<close>

declare rules_loop.simps [simp del] players_detailed_loop.simps [simp del]
  players_loop.simps [simp del]

lemma bind_read_Inl:
  assumes "bind_read m f = Inl e"
    and "\<And>e'. m = Inl e' \<Longrightarrow> e' = TruncatedBuffer"
    and "\<And>v bs. m = Inr (v, bs) \<Longrightarrow> f v bs = Inl e \<Longrightarrow> e = TruncatedBuffer"
  shows "e = TruncatedBuffer"
  using assms by (auto simp: bind_read_def split: sum.splits)

lemma readUInt_Inl: "readUInt w bs = Inl e \<Longrightarrow> e = TruncatedBuffer"
  by (auto simp: readUInt_def readBytes_def split: if_splits sum.splits)

lemma bsReadCP1251String_Inl: "bsReadCP1251String n bs = Inl e \<Longrightarrow> e = TruncatedBuffer"
  by (auto simp: bsReadCP1251String_def readBytes_def split: if_splits sum.splits)

lemma readBoolean_Inl: "readBoolean bs = Inl e \<Longrightarrow> e = TruncatedBuffer"
  by (auto simp: readBoolean_def readUInt8_def dest: readUInt_Inl split: sum.splits)

lemmas read_Inl = readUInt_Inl [of 1, folded readUInt8_def]
  readUInt_Inl [of 2, folded readUInt16_def] readUInt_Inl [of 4, folded readUInt32_def]
  bsReadCP1251String_Inl readBoolean_Inl

lemma decode_i_Inl: "decode_i bs = Inl e \<Longrightarrow> e = TruncatedBuffer"
  unfolding decode_i_def
  by (erule bind_read_Inl, erule read_Inl)+ simp

lemma rules_loop_Inl: "rules_loop i n bs acc = Inl e \<Longrightarrow> e = TruncatedBuffer"
proof (induction i n bs acc rule: rules_loop.induct)
  case (1 i n bytes rulesResult)
  from "1.prems" show ?case
    apply (subst (asm) rules_loop.simps)
    apply (simp split: if_splits)
    apply (erule bind_read_Inl, erule read_Inl)+
    apply (rule "1.IH" [simplified]; assumption)
    done
qed

lemma players_detailed_loop_Inl:
  "players_detailed_loop i bs acc = Inl e \<Longrightarrow> e = TruncatedBuffer"
proof (induction i bs acc rule: players_detailed_loop.induct)
  case (1 i bytes playersResult)
  from "1.prems" show ?case
    apply (subst (asm) players_detailed_loop.simps)
    apply (erule bind_read_Inl, erule read_Inl)
    apply (simp split: if_splits)
    apply (erule bind_read_Inl, erule read_Inl)+
    apply (rule "1.IH" [simplified]; assumption)
    done
qed

lemma players_loop_Inl:
  "players_loop i bs acc = Inl e \<Longrightarrow> e = TruncatedBuffer"
proof (induction i bs acc rule: players_loop.induct)
  case (1 i bytes playersStatsResult)
  from "1.prems" show ?case
    apply (subst (asm) players_loop.simps)
    apply (erule bind_read_Inl, erule read_Inl)
    apply (simp split: if_splits)
    apply (erule bind_read_Inl, erule read_Inl)+
    apply (rule "1.IH" [simplified]; assumption)
    done
qed

lemma decode_Inl: "decode opcode bs = Inl e \<Longrightarrow> e = TruncatedBuffer"
proof (cases opcode)
  case Op_i
  then show "decode opcode bs = Inl e \<Longrightarrow> e = TruncatedBuffer"
    by (simp add: decode_i_Inl)
next
  case Op_r
  then show "decode opcode bs = Inl e \<Longrightarrow> e = TruncatedBuffer"
    apply (simp add: decode_r_def)
    apply (erule bind_read_Inl, erule read_Inl, erule rules_loop_Inl)
    done
next
  case Op_d
  then show "decode opcode bs = Inl e \<Longrightarrow> e = TruncatedBuffer"
    by (simp add: decode_d_def players_detailed_loop_Inl)
next
  case Op_c
  then show "decode opcode bs = Inl e \<Longrightarrow> e = TruncatedBuffer"
    by (simp add: decode_c_def players_loop_Inl)
qed

text \<open>
  C3, as the specification states it, fails. In this reply to \<^verbatim>\<open>'i'\<close> the length prefix of
  the server name is 200 and four bytes follow. The promise is rejected with the fault of
  the codec itself, \<^verbatim>\<open>TruncatedBuffer\<close>, not with the error of a malformed response.
\<close>

theorem truncated_reply_rejects_with_codec_fault:
  "outcome (run [SendDone False,
                 Message (echo_header Op_i @ [0, 12, 0, 32, 0, 200, 0, 0, 0, 0x54, 0x65, 0x73, 0x74])]
            (loopback_query Op_i))
     = Some (Inl (CodecFault TruncatedBuffer))"
  by code_simp

text \<open>
  C3, amended. When the decoding of the payload of a reply of 11 bytes or more runs past
  the available bytes, the transaction fails: the handler catches the fault of the codec,
  which is \<^verbatim>\<open>TruncatedBuffer\<close>, and rejects the promise with that same fault, unchanged.
  The socket was closed before the decoding began.
\<close>

theorem decode_fault_rejected_unchanged:
  assumes "request_start lookup this opts opcode = Some (Inr t)"
    and "listener_armed (run evs t)" and "socket_open (run evs t)"
    and "11 \<le> length message"
    and "decode opcode (from_buffer (drop 11 message)) = Inl e"
  shows "outcome (run (evs @ [Message message]) t) = Some (Inl (CodecFault e))
         \<and> e = TruncatedBuffer
         \<and> close_calls (run (evs @ [Message message]) t) = close_calls (run evs t) + 1"
  using delivered_pending [OF assms(1,2,3)]
    on_message_decoded(1,2) [OF assms(4,3)] decode_Inl [OF assms(5)] assms(5)
  by simp

theorem decode_fault_rejected_unchanged_witness:
  "request_start (\<lambda>h. None) no_options no_options Op_r = Some (Inr (loopback_query Op_r))
   \<and> listener_armed (run [SendDone False] (loopback_query Op_r))
   \<and> socket_open (run [SendDone False] (loopback_query Op_r))
   \<and> 11 \<le> length (echo_header Op_r @ [1, 0, 7, 0x6D, 0x61, 0x70])
   \<and> decode Op_r (from_buffer (drop 11 (echo_header Op_r @ [1, 0, 7, 0x6D, 0x61, 0x70])))
       = Inl TruncatedBuffer
   \<and> outcome (run ([SendDone False] @ [Message (echo_header Op_r @ [1, 0, 7, 0x6D, 0x61, 0x70])])
               (loopback_query Op_r))
       = Some (Inl (CodecFault TruncatedBuffer))"
proof -
  have l: "listener_armed (run [SendDone False] (loopback_query Op_r))"
    and s: "socket_open (run [SendDone False] (loopback_query Op_r))"
    by (simp_all add: run_loopback_send_done) (simp_all add: loopback_query_def)
  have n: "11 \<le> length (echo_header Op_r @ [1, 0, 7, 0x6D, 0x61, 0x70])"
    by (simp add: echo_header_def)
  have d: "decode Op_r (from_buffer (drop 11 (echo_header Op_r @ [1, 0, 7, 0x6D, 0x61, 0x70])))
       = Inl TruncatedBuffer"
    by code_simp
  have "outcome (run ([SendDone False] @ [Message (echo_header Op_r @ [1, 0, 7, 0x6D, 0x61, 0x70])])
               (loopback_query Op_r))
       = Some (Inl (CodecFault TruncatedBuffer))"
    using decode_fault_rejected_unchanged [OF request_start_loopback l s n d] by simp
  with request_start_loopback l s n d show ?thesis by (intro conjI)
qed

section \<open>The loop over the detailed players\<close>

text \<open>
  C1. Two well-formed payloads of the wire format of \<^verbatim>\<open>'d'\<close>. The loop tests
  \<^verbatim>\<open>i < bytes.readUInt16()\<close> before every turn, so the count is read again after each
  record. With one player (id 5, name "A", score 1, ping 2) the second test reads past
  the end and the transaction is rejected with \<^verbatim>\<open>TruncatedBuffer\<close>. With two players, the
  second with id 1 and an empty name, the second test reads the id and the name length of
  the second record as the count 1, and the promise resolves with the first record alone.
\<close>

theorem players_detailed_count_read_again:
  "wire_players_detailed [(5, [0x41], 1, 2)] = [1, 0, 5, 1, 0x41, 1, 0, 0, 0, 2, 0, 0, 0]
   \<and> outcome (run [SendDone False,
                    Message (echo_header Op_d @ wire_players_detailed [(5, [0x41], 1, 2)])]
               (loopback_query Op_d))
       = Some (Inl (CodecFault TruncatedBuffer))
   \<and> wire_players_detailed [(5, [0x41], 1, 2), (1, [], 3, 4)]
       = [2, 0, 5, 1, 0x41, 1, 0, 0, 0, 2, 0, 0, 0, 1, 0, 3, 0, 0, 0, 4, 0, 0, 0]
   \<and> outcome (run [SendDone False,
                    Message (echo_header Op_d @
                             wire_players_detailed [(5, [0x41], 1, 2), (1, [], 3, 4)])]
               (loopback_query Op_d))
       = Some (Inr (PlayersDetailedResult
                      [\<lparr>player_id = 5, name = [0x41], score = 1, ping = 2\<rparr>]))"
  by code_simp

section \<open>Decoding a reply to \<^verbatim>\<open>'i'\<close>\<close>

lemma length_le_bytes: "length (le_bytes w n) = w"
  by (induction w arbitrary: n) simp_all

lemma le_value_le_bytes: "n < 256 ^ w \<Longrightarrow> le_value (le_bytes w n) = n"
proof (induction w arbitrary: n)
  case 0
  then show ?case by simp
next
  case (Suc w)
  then have "n div 256 < 256 ^ w"
    by (simp add: less_mult_imp_div_less mult.commute)
  with Suc.IH have "le_value (le_bytes w (n div 256)) = n div 256" by simp
  then show ?case by (simp add: unat_of_nat)
qed

lemma readBytes_wire:
  assumes "in_range bs" and "unread_bytes bs = raw @ r"
  shows "\<exists>bs'. readBytes (length raw) bs = Inr (raw, bs') \<and> in_range bs' \<and> unread_bytes bs' = r"
proof -
  let ?bs' = "bs\<lparr>read_offset := read_offset bs + length raw\<rparr>"
  from assms have len: "length (buffer bs) - read_offset bs = length raw + length r"
    by (metis unread_bytes_def length_drop length_append)
  with assms(1) have le: "read_offset bs + length raw \<le> length (buffer bs)"
    by (simp add: in_range_def)
  have "drop (length raw) (raw @ r) = r" by simp
  then have "drop (length raw) (drop (read_offset bs) (buffer bs)) = r"
    using assms(2) by (simp only: unread_bytes_def)
  then have "unread_bytes ?bs' = r" by (simp add: unread_bytes_def add.commute)
  moreover have "in_range ?bs'" using le by (simp add: in_range_def)
  moreover have "readBytes (length raw) bs = Inr (raw, ?bs')"
    using le assms(2) by (simp add: readBytes_def unread_bytes_def)
  ultimately show ?thesis by blast
qed

lemma readUInt_wire:
  assumes "in_range bs" and "unread_bytes bs = le_bytes w n @ r" and "n < 256 ^ w"
  shows "\<exists>bs'. readUInt w bs = Inr (n, bs') \<and> in_range bs' \<and> unread_bytes bs' = r"
  using readBytes_wire [OF assms(1,2)] le_value_le_bytes [OF assms(3)]
  by (auto simp: readUInt_def length_le_bytes)

lemma bsReadCP1251String_wire:
  assumes "in_range bs" and "unread_bytes bs = raw @ r"
  shows "\<exists>bs'. bsReadCP1251String (length raw) bs = Inr (decodeWin1251String raw, bs')
           \<and> in_range bs' \<and> unread_bytes bs' = r"
  using readBytes_wire [OF assms] by (auto simp: bsReadCP1251String_def)

lemma readBoolean_wire:
  assumes "in_range bs" and "unread_bytes bs = c # r"
  shows "\<exists>bs'. readBoolean bs = Inr (c \<noteq> 0, bs') \<and> in_range bs' \<and> unread_bytes bs' = r"
  using readBytes_wire [OF assms(1), of "[c]" r] assms(2)
  by (auto simp: readBoolean_def readUInt8_def readUInt_def unat_gt_0)

lemma decode_i_wire:
  assumes "in_range bs"
    and "unread_bytes bs = wire_info c pl mx sn gm lg @ r"
    and "pl < 65536" and "mx < 65536"
    and "length sn < 2 ^ 32" and "length gm < 2 ^ 32" and "length lg < 2 ^ 32"
  shows "decode_i bs =
           Inr (InfoResult \<lparr>closed = (c \<noteq> 0), players = pl, maxPlayers = mx,
                  serverName = decodeWin1251String sn,
                  gameModeName = decodeWin1251String gm,
                  language = decodeWin1251String lg\<rparr>)"
proof -
  have w: "unread_bytes bs = c # (le_bytes 2 pl @ le_bytes 2 mx @ le_bytes 4 (length sn) @ sn
            @ le_bytes 4 (length gm) @ gm @ le_bytes 4 (length lg) @ lg @ r)"
    using assms(2) by (simp add: wire_info_def wire_string_def)
  obtain b1 where 1: "readBoolean bs = Inr (c \<noteq> 0, b1)" "in_range b1"
    "unread_bytes b1 = le_bytes 2 pl @ le_bytes 2 mx @ le_bytes 4 (length sn) @ sn
            @ le_bytes 4 (length gm) @ gm @ le_bytes 4 (length lg) @ lg @ r"
    using readBoolean_wire [OF assms(1) w] by blast
  obtain b2 where 2: "readUInt16 b1 = Inr (pl, b2)" "in_range b2"
    "unread_bytes b2 = le_bytes 2 mx @ le_bytes 4 (length sn) @ sn
            @ le_bytes 4 (length gm) @ gm @ le_bytes 4 (length lg) @ lg @ r"
    using readUInt_wire [OF 1(2,3)] assms(3) unfolding readUInt16_def by auto
  obtain b3 where 3: "readUInt16 b2 = Inr (mx, b3)" "in_range b3"
    "unread_bytes b3 = le_bytes 4 (length sn) @ sn
            @ le_bytes 4 (length gm) @ gm @ le_bytes 4 (length lg) @ lg @ r"
    using readUInt_wire [OF 2(2,3)] assms(4) unfolding readUInt16_def by auto
  obtain b4 where 4: "readUInt32 b3 = Inr (length sn, b4)" "in_range b4"
    "unread_bytes b4 = sn @ le_bytes 4 (length gm) @ gm @ le_bytes 4 (length lg) @ lg @ r"
    using readUInt_wire [OF 3(2,3)] assms(5) unfolding readUInt32_def by auto
  obtain b5 where 5: "bsReadCP1251String (length sn) b4 = Inr (decodeWin1251String sn, b5)"
    "in_range b5"
    "unread_bytes b5 = le_bytes 4 (length gm) @ gm @ le_bytes 4 (length lg) @ lg @ r"
    using bsReadCP1251String_wire [OF 4(2,3)] by blast
  obtain b6 where 6: "readUInt32 b5 = Inr (length gm, b6)" "in_range b6"
    "unread_bytes b6 = gm @ le_bytes 4 (length lg) @ lg @ r"
    using readUInt_wire [OF 5(2,3)] assms(6) unfolding readUInt32_def by auto
  obtain b7 where 7: "bsReadCP1251String (length gm) b6 = Inr (decodeWin1251String gm, b7)"
    "in_range b7" "unread_bytes b7 = le_bytes 4 (length lg) @ lg @ r"
    using bsReadCP1251String_wire [OF 6(2,3)] by blast
  obtain b8 where 8: "readUInt32 b7 = Inr (length lg, b8)" "in_range b8"
    "unread_bytes b8 = lg @ r"
    using readUInt_wire [OF 7(2,3)] assms(7) unfolding readUInt32_def by auto
  obtain b9 where 9: "bsReadCP1251String (length lg) b8 = Inr (decodeWin1251String lg, b9)"
    using bsReadCP1251String_wire [OF 8(2,3)] by blast
  show ?thesis
    by (simp add: decode_i_def bind_read_def 1(1) 2(1) 3(1) 4(1) 5(1) 6(1) 7(1) 8(1) 9)
qed

text \<open>
  C7. A reply to \<^verbatim>\<open>'i'\<close> is decoded in this order: one byte for \<^verbatim>\<open>closed\<close> (true when it
  is not zero), a uint16 for \<^verbatim>\<open>players\<close>, a uint16 for \<^verbatim>\<open>maxPlayers\<close>, then the server
  name, the game mode name and the language, each after its own uint32 length. When such
  a reply reaches the listener, the promise resolves with exactly these six values.
\<close>

theorem info_reply_decoded:
  assumes "request_start lookup this opts Op_i = Some (Inr t)"
    and "listener_armed (run evs t)" and "socket_open (run evs t)"
    and "length header = 11"
    and "pl < 65536" and "mx < 65536"
    and "length sn < 2 ^ 32" and "length gm < 2 ^ 32" and "length lg < 2 ^ 32"
  shows "outcome (run (evs @ [Message (header @ wire_info c pl mx sn gm lg @ rest)]) t) =
           Some (Inr (InfoResult \<lparr>closed = (c \<noteq> 0), players = pl, maxPlayers = mx,
                  serverName = decodeWin1251String sn,
                  gameModeName = decodeWin1251String gm,
                  language = decodeWin1251String lg\<rparr>))"
proof -
  let ?m = "header @ wire_info c pl mx sn gm lg @ rest"
  have len: "11 \<le> length ?m" using assms(4) by simp
  have "decode_i (from_buffer (drop 11 ?m)) =
           Inr (InfoResult \<lparr>closed = (c \<noteq> 0), players = pl, maxPlayers = mx,
                  serverName = decodeWin1251String sn,
                  gameModeName = decodeWin1251String gm,
                  language = decodeWin1251String lg\<rparr>)"
    using assms(4) by (intro decode_i_wire [where r = rest] assms)
        (simp_all add: in_range_def unread_bytes_def from_buffer_def)
  then show ?thesis
    using delivered_pending [OF assms(1,2,3)] on_message_decoded(1) [OF len assms(3)]
    by simp
qed

theorem info_reply_decoded_witness:
  "request_start (\<lambda>h. None) no_options no_options Op_i = Some (Inr (loopback_query Op_i))
   \<and> listener_armed (run [SendDone False] (loopback_query Op_i))
   \<and> socket_open (run [SendDone False] (loopback_query Op_i))
   \<and> length (echo_header Op_i) = 11
   \<and> (12::nat) < 65536 \<and> (32::nat) < 65536
   \<and> length (map of_char ''Test'' :: byte list) < 2 ^ 32
   \<and> length (map of_char ''DM'' :: byte list) < 2 ^ 32
   \<and> length (map of_char ''EN'' :: byte list) < 2 ^ 32
   \<and> wire_info 0 12 32 (map of_char ''Test'') (map of_char ''DM'') (map of_char ''EN'')
       = [0, 12, 0, 32, 0, 4, 0, 0, 0, 0x54, 0x65, 0x73, 0x74, 2, 0, 0, 0, 0x44, 0x4D,
          2, 0, 0, 0, 0x45, 0x4E]
   \<and> outcome (run ([SendDone False] @
                    [Message (echo_header Op_i @
                       wire_info 0 12 32 (map of_char ''Test'') (map of_char ''DM'')
                         (map of_char ''EN'') @ [])])
               (loopback_query Op_i))
       = Some (Inr (InfoResult \<lparr>closed = False, players = 12, maxPlayers = 32,
                      serverName = map of_char ''Test'', gameModeName = map of_char ''DM'',
                      language = map of_char ''EN''\<rparr>))"
proof -
  have l: "listener_armed (run [SendDone False] (loopback_query Op_i))"
    and s: "socket_open (run [SendDone False] (loopback_query Op_i))"
    by (simp_all add: run_loopback_send_done) (simp_all add: loopback_query_def)
  have h: "length (echo_header Op_i) = 11" by (simp add: echo_header_def)
  have n: "(12::nat) < 65536" "(32::nat) < 65536"
    "length (map of_char ''Test'' :: byte list) < 2 ^ 32"
    "length (map of_char ''DM'' :: byte list) < 2 ^ 32"
    "length (map of_char ''EN'' :: byte list) < 2 ^ 32"
    by simp_all
  have w: "wire_info 0 12 32 (map of_char ''Test'') (map of_char ''DM'') (map of_char ''EN'')
       = [0, 12, 0, 32, 0, 4, 0, 0, 0, 0x54, 0x65, 0x73, 0x74, 2, 0, 0, 0, 0x44, 0x4D,
          2, 0, 0, 0, 0x45, 0x4E]"
    by code_simp
  have d: "decodeWin1251String (map of_char ''Test'') = map of_char ''Test''"
    "decodeWin1251String (map of_char ''DM'') = map of_char ''DM''"
    "decodeWin1251String (map of_char ''EN'') = map of_char ''EN''"
    by code_simp+
  have "outcome (run ([SendDone False] @
                    [Message (echo_header Op_i @
                       wire_info 0 12 32 (map of_char ''Test'') (map of_char ''DM'')
                         (map of_char ''EN'') @ [])])
               (loopback_query Op_i))
       = Some (Inr (InfoResult \<lparr>closed = False, players = 12, maxPlayers = 32,
                      serverName = map of_char ''Test'', gameModeName = map of_char ''DM'',
                      language = map of_char ''EN''\<rparr>))"
    using info_reply_decoded [OF request_start_loopback l s h n, of 0 "[]"]
    by (simp only: d) simp
  with request_start_loopback l s h n w show ?thesis by (intro conjI)
qed

section \<open>The code page of the text fields\<close>





















end
